theory Spec2Isabelle
  imports Complex_Main
begin

section \<open>Values supplied by the notes and timing modules\<close>

text \<open>
  \<^verbatim>\<open>score.py\<close> imports \<^verbatim>\<open>Note\<close> from \<^verbatim>\<open>music_generator.music.notes\<close> and
  \<^verbatim>\<open>Signature\<close>, \<^verbatim>\<open>Tempo\<close>, \<^verbatim>\<open>Duration\<close> from \<^verbatim>\<open>music_generator.music.timing\<close>.
  Neither module is part of the sources at hand, so their values and operations are modelled
  from the specification (sections 3 and 4.1). All of them are immutable values there, so
  they are HOL values here; Python's floats are idealised as real numbers.
\<close>

text \<open>Modelled from the spec: \<^verbatim>\<open>Note\<close>, an opaque pitch identity (name and octave), as
  \<^verbatim>\<open>songs.py\<close> constructs it (\<^verbatim>\<open>Note('C', 3)\<close>).\<close>

datatype Note = Note string int

text \<open>Modelled from the spec: \<^verbatim>\<open>Duration\<close>, an absolute time span held as a single scalar
  (seconds).\<close>

datatype Duration = Duration (seconds: real)

text \<open>Modelled from the spec: \<^verbatim>\<open>Duration + Duration -> Duration\<close>, the sum of the two
  spans.\<close>

fun Duration_add :: "Duration \<Rightarrow> Duration \<Rightarrow> Duration" where
  "Duration_add (Duration a) (Duration b) = Duration (a + b)"

text \<open>Modelled from the spec: \<^verbatim>\<open>Duration \<times> scalar -> Duration\<close>, used by \<^verbatim>\<open>total_time\<close> with
  the scalar on the left (\<^verbatim>\<open>float * Duration\<close>).\<close>

fun Duration_rmul :: "real \<Rightarrow> Duration \<Rightarrow> Duration" where
  "Duration_rmul k (Duration a) = Duration (k * a)"

text \<open>Modelled from the spec: \<^verbatim>\<open>Tempo\<close>, a beats-per-minute descriptor.\<close>

datatype Tempo = Tempo (bpm: real)

text \<open>Modelled from the spec: \<^verbatim>\<open>Tempo.quarter_note()\<close>, the Duration of one quarter note,
  computed as \<^verbatim>\<open>60 / bpm\<close>. The spec requires \<^verbatim>\<open>bpm > 0\<close> and leaves other tempos
  undefined; every concrete tempo used below is positive.\<close>

definition quarter_note :: "Tempo \<Rightarrow> Duration" where
  "quarter_note t = Duration (60 / bpm t)"

text \<open>Modelled from the spec: \<^verbatim>\<open>Signature\<close>, a time signature (numerator, denominator).\<close>

datatype Signature = Signature (numerator: real) (denominator: real)

text \<open>Modelled from the spec: \<^verbatim>\<open>Signature.get_num_quarter_notes()\<close>, computed as
  \<^verbatim>\<open>numerator \<times> 4 / denominator\<close>. The denominator is not validated; every concrete
  signature used below has a non-zero denominator.\<close>

definition get_num_quarter_notes :: "Signature \<Rightarrow> real" where
  "get_num_quarter_notes s = numerator s * 4 / denominator s"

text \<open>Modelled from the spec: \<^verbatim>\<open>Duration.from_num_beats(beats, tempo)\<close>, which returns
  \<^verbatim>\<open>beats \<times> tempo.quarter_note()\<close>.\<close>

definition from_num_beats :: "real \<Rightarrow> Tempo \<Rightarrow> Duration" where
  "from_num_beats beats t = Duration_rmul beats (quarter_note t)"


section \<open>The object store\<close>

text \<open>
  \<^verbatim>\<open>PositionedNote\<close>, \<^verbatim>\<open>Measure\<close> and \<^verbatim>\<open>Track\<close> instances are Python objects: they
  have an identity, they are shared by reference (one Measure may sit several times in a
  Track) and two of them are mutated in place. The store keeps the instances of each class in
  a list; a reference is the index of the instance, and a new instance is appended, so its
  reference is the length of the list before the allocation.
\<close>

type_synonym ref = nat

record PositionedNote =
  pnote :: Note
  offset :: Duration
  duration :: Duration
  velocity :: real

record Measure =
  tempo :: Tempo
  signature :: Signature
  notes_m :: "ref list"

record Track =
  measures_tr :: "ref list"

record heap =
  pnote_objs :: "PositionedNote list"
  measure_objs :: "Measure list"
  track_objs :: "Track list"

text \<open>Reading a reference. A reference that names no instance cannot arise in Python; the
  model answers \<open>None\<close> there, and the operations below pass that on.\<close>

definition get_pnote :: "heap \<Rightarrow> ref \<Rightarrow> PositionedNote option" where
  "get_pnote h r = (if r < length (pnote_objs h) then Some (pnote_objs h ! r) else None)"

definition get_measure :: "heap \<Rightarrow> ref \<Rightarrow> Measure option" where
  "get_measure h r = (if r < length (measure_objs h) then Some (measure_objs h ! r) else None)"

definition get_track_obj :: "heap \<Rightarrow> ref \<Rightarrow> Track option" where
  "get_track_obj h r = (if r < length (track_objs h) then Some (track_objs h ! r) else None)"


section \<open>PositionedNote\<close>

text \<open>\<^verbatim>\<open>PositionedNote.__init__(note, offset, duration, velocity=1.0)\<close>: a new instance;
  an absent velocity argument takes the default \<open>1.0\<close>.\<close>

definition PositionedNote_init ::
  "Note \<Rightarrow> Duration \<Rightarrow> Duration \<Rightarrow> real option \<Rightarrow> heap \<Rightarrow> ref \<times> heap" where
  "PositionedNote_init n off dur vel h =
     (length (pnote_objs h),
      h\<lparr>pnote_objs := pnote_objs h @
           [\<lparr>pnote = n, offset = off, duration = dur,
             velocity = (case vel of None \<Rightarrow> 1 | Some v \<Rightarrow> v)\<rparr>]\<rparr>)"

text \<open>\<^verbatim>\<open>self.offset += offset; return self\<close>.\<close>

definition add_offset :: "ref \<Rightarrow> Duration \<Rightarrow> heap \<Rightarrow> (ref \<times> heap) option" where
  "add_offset self d h =
     (case get_pnote h self of
        None \<Rightarrow> None
      | Some p \<Rightarrow>
          Some (self,
                h\<lparr>pnote_objs := (pnote_objs h)[self := p\<lparr>offset := Duration_add (offset p) d\<rparr>]\<rparr>))"

text \<open>\<^verbatim>\<open>return self.offset + self.duration\<close>.\<close>

definition get_moment_release :: "ref \<Rightarrow> heap \<Rightarrow> Duration option" where
  "get_moment_release self h =
     (case get_pnote h self of
        None \<Rightarrow> None
      | Some p \<Rightarrow> Some (Duration_add (offset p) (duration p)))"

text \<open>\<^verbatim>\<open>return deepcopy(self)\<close>: a new instance with copies of all four attributes. The
  attributes are immutable values in this model, so the copy holds equal values.\<close>

definition clone :: "ref \<Rightarrow> heap \<Rightarrow> (ref \<times> heap) option" where
  "clone self h =
     (case get_pnote h self of
        None \<Rightarrow> None
      | Some p \<Rightarrow> Some (length (pnote_objs h), h\<lparr>pnote_objs := pnote_objs h @ [p]\<rparr>))"


section \<open>Measure\<close>

text \<open>\<^verbatim>\<open>Measure.__init__(tempo, signature)\<close>: a new instance with an empty note list.\<close>

definition Measure_init :: "Tempo \<Rightarrow> Signature \<Rightarrow> heap \<Rightarrow> ref \<times> heap" where
  "Measure_init t s h =
     (length (measure_objs h),
      h\<lparr>measure_objs := measure_objs h @ [\<lparr>tempo = t, signature = s, notes_m = []\<rparr>]\<rparr>)"

text \<open>\<^verbatim>\<open>return self.signature.get_num_quarter_notes() * self.tempo.quarter_note()\<close>.\<close>

definition total_time :: "ref \<Rightarrow> heap \<Rightarrow> Duration option" where
  "total_time self h =
     (case get_measure h self of
        None \<Rightarrow> None
      | Some m \<Rightarrow> Some (Duration_rmul (get_num_quarter_notes (signature m)) (quarter_note (tempo m))))"

text \<open>\<^verbatim>\<open>add_note(note, position, duration, velocity=1.0)\<close>: both beat counts are converted
  with the measure's tempo, a new PositionedNote is constructed and appended to
  \<^verbatim>\<open>self.notes\<close>, and \<^verbatim>\<open>self\<close> is returned. There is no comparison with the measure's
  length and no \<^verbatim>\<open>raise\<close>.\<close>

definition add_note ::
  "ref \<Rightarrow> Note \<Rightarrow> real \<Rightarrow> real \<Rightarrow> real option \<Rightarrow> heap \<Rightarrow> (ref \<times> heap) option" where
  "add_note self n position dur vel h =
     (case get_measure h self of
        None \<Rightarrow> None
      | Some m \<Rightarrow>
          (let position' = from_num_beats position (tempo m);
               duration' = from_num_beats dur (tempo m);
               velocity' = (case vel of None \<Rightarrow> 1 | Some v \<Rightarrow> v);
               (p, h1) = PositionedNote_init n position' duration' (Some velocity') h
           in Some (self,
                    h1\<lparr>measure_objs := (measure_objs h1)[self := m\<lparr>notes_m := notes_m m @ [p]\<rparr>]\<rparr>)))"

text \<open>The list comprehension \<^verbatim>\<open>[note.clone().add_offset(offset) for note in self.notes]\<close>:
  for each stored reference in turn, clone it and add the offset to the clone.\<close>

fun generate_notes_comprehension ::
  "ref list \<Rightarrow> Duration \<Rightarrow> heap \<Rightarrow> (ref list \<times> heap) option" where
  "generate_notes_comprehension [] off h = Some ([], h)"
| "generate_notes_comprehension (r # rs) off h =
     (case clone r h of
        None \<Rightarrow> None
      | Some (c, h1) \<Rightarrow>
          (case add_offset c off h1 of
             None \<Rightarrow> None
           | Some (c', h2) \<Rightarrow>
               (case generate_notes_comprehension rs off h2 of
                  None \<Rightarrow> None
                | Some (out, h3) \<Rightarrow> Some (c' # out, h3))))"

definition Measure_generate_notes ::
  "ref \<Rightarrow> Duration \<Rightarrow> heap \<Rightarrow> (ref list \<times> heap) option" where
  "Measure_generate_notes self off h =
     (case get_measure h self of
        None \<Rightarrow> None
      | Some m \<Rightarrow> generate_notes_comprehension (notes_m m) off h)"


section \<open>Track\<close>

text \<open>\<^verbatim>\<open>Track.__init__(measures)\<close>: a new instance holding the given sequence of Measure
  references.\<close>

definition Track_init :: "ref list \<Rightarrow> heap \<Rightarrow> ref \<times> heap" where
  "Track_init ms h =
     (length (track_objs h), h\<lparr>track_objs := track_objs h @ [\<lparr>measures_tr = ms\<rparr>]\<rparr>)"

text \<open>The loop of \<^verbatim>\<open>Track.generate_notes\<close>, with the local variables \<^verbatim>\<open>notes\<close> (here
  \<open>out\<close>) and \<^verbatim>\<open>offset\<close>:
  \<^verbatim>\<open>notes += measure.generate_notes(offset); offset += measure.total_time()\<close>.\<close>

fun Track_generate_notes_loop ::
  "ref list \<Rightarrow> ref list \<Rightarrow> Duration \<Rightarrow> heap \<Rightarrow> (ref list \<times> heap) option" where
  "Track_generate_notes_loop [] out off h = Some (out, h)"
| "Track_generate_notes_loop (m # ms) out off h =
     (case Measure_generate_notes m off h of
        None \<Rightarrow> None
      | Some (res, h1) \<Rightarrow>
          (case total_time m h1 of
             None \<Rightarrow> None
           | Some t \<Rightarrow> Track_generate_notes_loop ms (out @ res) (Duration_add off t) h1))"

definition Track_generate_notes :: "ref \<Rightarrow> heap \<Rightarrow> (ref list \<times> heap) option" where
  "Track_generate_notes self h =
     (case get_track_obj h self of
        None \<Rightarrow> None
      | Some t \<Rightarrow> Track_generate_notes_loop (measures_tr t) [] (Duration 0) h)"


section \<open>Score\<close>

text \<open>A Score holds a dict from names to Track references. The Score is changed in place
  by \<^verbatim>\<open>add_track\<close>; the model passes the Score along.\<close>

record Score =
  tracks :: "string \<rightharpoonup> ref"

definition Score_init :: Score where
  "Score_init = \<lparr>tracks = Map.empty\<rparr>"

definition add_track :: "Score \<Rightarrow> string \<Rightarrow> ref \<Rightarrow> Score" where
  "add_track self name track = self\<lparr>tracks := (tracks self)(name \<mapsto> track)\<rparr>"

text \<open>\<^verbatim>\<open>get_track\<close> does not raise: for an unknown name it \<^emph>\<open>returns\<close> an \<^verbatim>\<open>IndexError\<close>
  instance carrying the message \<^verbatim>\<open>'{} not found in tracks'.format(name)\<close>. The result is
  therefore either that error value (\<open>Inl\<close>) or the stored Track reference (\<open>Inr\<close>).\<close>

datatype error = IndexError string

definition get_track :: "Score \<Rightarrow> string \<Rightarrow> error + ref" where
  "get_track self name =
     (if name \<notin> dom (tracks self) then Inl (IndexError (name @ '' not found in tracks''))
      else Inr (the (tracks self name)))"


section \<open>Notions used to state the properties\<close>

text \<open>The value of a clone after \<^verbatim>\<open>add_offset(off)\<close>: the stored note with the offset
  increased, every other attribute as it was.\<close>

definition shift :: "Duration \<Rightarrow> PositionedNote \<Rightarrow> PositionedNote" where
  "shift off p = p\<lparr>offset := Duration_add (offset p) off\<rparr>"

text \<open>The PositionedNote that \<^verbatim>\<open>add_note\<close> constructs from its arguments under a
  tempo.\<close>

definition stored_note :: "Tempo \<Rightarrow> Note \<times> real \<times> real \<times> real option \<Rightarrow> PositionedNote" where
  "stored_note t a =
     (case a of (n, position, dur, vel) \<Rightarrow>
        \<lparr>pnote = n, offset = from_num_beats position t, duration = from_num_beats dur t,
         velocity = (case vel of None \<Rightarrow> 1 | Some v \<Rightarrow> v)\<rparr>)"

text \<open>The description of \<^verbatim>\<open>Track.generate_notes\<close> in the specification, section 4.4:
  the measures are visited in stored order with a running offset; each measure is asked for
  \<^verbatim>\<open>generate_notes(running_offset)\<close>, and the running offset then grows by that measure's
  \<^verbatim>\<open>total_time()\<close>. This function returns the per-measure results one by one; the
  specification's output is their concatenation.\<close>

fun per_measure_results ::
  "ref list \<Rightarrow> Duration \<Rightarrow> heap \<Rightarrow> (ref list list \<times> heap) option" where
  "per_measure_results [] running_offset h = Some ([], h)"
| "per_measure_results (m # ms) running_offset h =
     (case Measure_generate_notes m running_offset h of
        None \<Rightarrow> None
      | Some (res, h1) \<Rightarrow>
          (case total_time m h1 of
             None \<Rightarrow> None
           | Some t \<Rightarrow>
               (case per_measure_results ms (Duration_add running_offset t) h1 of
                  None \<Rightarrow> None
                | Some (ress, h2) \<Rightarrow> Some (res # ress, h2))))"

text \<open>The same output read as values: the events a Measure contributes at an offset are
  its stored notes with that offset added, and the events of a sequence of measures are
  those of the first measure at the running offset, followed by those of the remaining
  measures at the running offset plus the first measure's \<^verbatim>\<open>total_time()\<close>.\<close>

definition measure_events :: "heap \<Rightarrow> Duration \<Rightarrow> ref \<Rightarrow> PositionedNote list" where
  "measure_events h off M = map (\<lambda>r. shift off (pnote_objs h ! r)) (notes_m (measure_objs h ! M))"

fun track_events :: "heap \<Rightarrow> ref list \<Rightarrow> Duration \<Rightarrow> PositionedNote list" where
  "track_events h [] running_offset = []"
| "track_events h (M # Ms) running_offset =
     measure_events h running_offset M @
     (case total_time M h of
        None \<Rightarrow> []
      | Some t \<Rightarrow> track_events h Ms (Duration_add running_offset t))"

text \<open>A caller's chain of builder calls
  \<^verbatim>\<open>measure.add_note(...).add_note(...)\<close>, as \<^verbatim>\<open>songs.py\<close> writes them: each call is made
  on the Measure the previous call returned.\<close>

fun add_notes ::
  "ref \<Rightarrow> (Note \<times> real \<times> real \<times> real option) list \<Rightarrow> heap \<Rightarrow> (ref \<times> heap) option" where
  "add_notes self [] h = Some (self, h)"
| "add_notes self ((n, position, dur, vel) # rest) h =
     (case add_note self n position dur vel h of
        None \<Rightarrow> None
      | Some (self', h1) \<Rightarrow> add_notes self' rest h1)"

text \<open>A caller's successive calls \<^verbatim>\<open>measure.generate_notes(off)\<close>, one for each offset of
  a list, whose results are dropped.\<close>

fun generate_notes_calls :: "ref \<Rightarrow> Duration list \<Rightarrow> heap \<Rightarrow> heap option" where
  "generate_notes_calls self [] h = Some h"
| "generate_notes_calls self (off # offs) h =
     (case Measure_generate_notes self off h of
        None \<Rightarrow> None
      | Some (out, h1) \<Rightarrow> generate_notes_calls self offs h1)"

text \<open>Stores as Python can build them: a Measure's stored references name PositionedNote
  instances, a Track's references name such Measures.\<close>

definition measure_ok :: "heap \<Rightarrow> ref \<Rightarrow> bool" where
  "measure_ok h M =
     (case get_measure h M of
        None \<Rightarrow> False
      | Some m \<Rightarrow> \<forall>r\<in>set (notes_m m). r < length (pnote_objs h))"

definition track_ok :: "heap \<Rightarrow> ref \<Rightarrow> bool" where
  "track_ok h t =
     (case get_track_obj h t of
        None \<Rightarrow> False
      | Some tr \<Rightarrow> \<forall>M\<in>set (measures_tr tr). measure_ok h M)"


section \<open>Example stores\<close>

definition empty_heap :: heap where
  "empty_heap = \<lparr>pnote_objs = [], measure_objs = [], track_objs = []\<rparr>"

text \<open>\<^verbatim>\<open>theme2\<close> of \<^verbatim>\<open>songs.py\<close> (E, F and G in a 4/4 measure at 120 bpm), placed twice in a
  Track.\<close>

definition theme2_heap :: heap where
  "theme2_heap =
     \<lparr>pnote_objs =
        [\<lparr>pnote = Note ''E'' 3, offset = Duration 0, duration = Duration (1/2), velocity = 1\<rparr>,
         \<lparr>pnote = Note ''F'' 3, offset = Duration (1/2), duration = Duration (1/2), velocity = 1\<rparr>,
         \<lparr>pnote = Note ''G'' 3, offset = Duration 1, duration = Duration 1, velocity = 1\<rparr>],
      measure_objs = [\<lparr>tempo = Tempo 120, signature = Signature 4 4, notes_m = [0, 1, 2]\<rparr>],
      track_objs = [\<lparr>measures_tr = [0, 0]\<rparr>]\<rparr>"

text \<open>A measure of signature 0/4 holding one note, placed twice in a Track, and the store
  after that Track's \<^verbatim>\<open>generate_notes()\<close>.\<close>

definition zero_length_heap :: heap where
  "zero_length_heap =
     \<lparr>pnote_objs =
        [\<lparr>pnote = Note ''C'' 3, offset = Duration 0, duration = Duration (1/2), velocity = 1\<rparr>],
      measure_objs = [\<lparr>tempo = Tempo 120, signature = Signature 0 4, notes_m = [0]\<rparr>],
      track_objs = [\<lparr>measures_tr = [0, 0]\<rparr>]\<rparr>"

definition zero_length_heap_after :: heap where
  "zero_length_heap_after =
     \<lparr>pnote_objs =
        [\<lparr>pnote = Note ''C'' 3, offset = Duration 0, duration = Duration (1/2), velocity = 1\<rparr>,
         \<lparr>pnote = Note ''C'' 3, offset = Duration 0, duration = Duration (1/2), velocity = 1\<rparr>,
         \<lparr>pnote = Note ''C'' 3, offset = Duration 0, duration = Duration (1/2), velocity = 1\<rparr>],
      measure_objs = [\<lparr>tempo = Tempo 120, signature = Signature 0 4, notes_m = [0]\<rparr>],
      track_objs = [\<lparr>measures_tr = [0, 0]\<rparr>]\<rparr>"

text \<open>A Score holding one Track under the name \<^verbatim>\<open>melody\<close>.\<close>

definition melody_score :: Score where
  "melody_score = add_track Score_init ''melody'' 0"


section \<open>Evaluating the operations on concrete stores\<close>

lemmas eval_defs = Track_generate_notes_def get_track_obj_def Measure_generate_notes_def
  get_measure_def clone_def add_offset_def get_pnote_def total_time_def
  get_num_quarter_notes_def quarter_note_def from_num_beats_def add_note_def
  PositionedNote_init_def Measure_init_def Track_init_def

text \<open>The example stores are what the builder calls of \<^verbatim>\<open>songs.py\<close> leave behind.\<close>

lemma theme2_built:
  "(case Measure_init (Tempo 120) (Signature 4 4) empty_heap of (M, h1) \<Rightarrow>
      (case add_notes M [(Note ''E'' 3, 0, 1, None), (Note ''F'' 3, 1, 1, None),
                         (Note ''G'' 3, 2, 2, None)] h1 of
         None \<Rightarrow> None
       | Some (M', h2) \<Rightarrow> Some (Track_init [M', M'] h2)))
   = Some (0, theme2_heap)"
  by (simp add: Measure_init_def empty_heap_def add_note_def get_measure_def
      PositionedNote_init_def from_num_beats_def quarter_note_def Track_init_def theme2_heap_def)

lemma zero_length_built:
  "(case Measure_init (Tempo 120) (Signature 0 4) empty_heap of (M, h1) \<Rightarrow>
      (case add_note M (Note ''C'' 3) 0 1 None h1 of
         None \<Rightarrow> None
       | Some (M', h2) \<Rightarrow> Some (Track_init [M', M'] h2)))
   = Some (0, zero_length_heap)"
  by (simp add: eval_defs empty_heap_def zero_length_heap_def)

lemma theme2_track_events:
  "map_option (\<lambda>(out, h'). map (\<lambda>e. map_option offset (get_pnote h' e)) out)
     (Track_generate_notes 0 theme2_heap)
   = Some [Some (Duration 0), Some (Duration (1/2)), Some (Duration 1),
           Some (Duration 2), Some (Duration (5/2)), Some (Duration 3)]"
  by (simp add: eval_defs theme2_heap_def)


section \<open>How the operations act on the store\<close>

lemma get_measure_SomeD:
  "get_measure h self = Some m \<Longrightarrow> self < length (measure_objs h) \<and> measure_objs h ! self = m"
  by (auto simp add: get_measure_def split: if_splits)

lemma get_measure_pnote_objs_update:
  "get_measure (h\<lparr>pnote_objs := ps\<rparr>) self = get_measure h self"
  by (simp add: get_measure_def)

lemma get_measure_track_objs_update:
  "get_measure (h\<lparr>track_objs := ts\<rparr>) self = get_measure h self"
  by (simp add: get_measure_def)

lemma total_time_pnote_objs_update:
  "total_time self (h\<lparr>pnote_objs := ps\<rparr>) = total_time self h"
  by (simp add: total_time_def get_measure_def)

lemma total_time_track_objs_update:
  "total_time self (h\<lparr>track_objs := ts\<rparr>) = total_time self h"
  by (simp add: total_time_def get_measure_def)

lemma nth_upt_append:
  "map (\<lambda>r. f ((xs @ ys) ! r)) [length xs ..< length xs + length ys] = map f ys"
  by (rule nth_equalityI) (simp_all add: nth_append)

lemma clone_valid:
  assumes "r < length (pnote_objs h)"
  shows "clone r h = Some (length (pnote_objs h), h\<lparr>pnote_objs := pnote_objs h @ [pnote_objs h ! r]\<rparr>)"
  using assms by (simp add: clone_def get_pnote_def)

lemma add_offset_fresh_clone:
  shows "add_offset (length (pnote_objs h)) off (h\<lparr>pnote_objs := pnote_objs h @ [pnote_objs h ! r]\<rparr>)
         = Some (length (pnote_objs h), h\<lparr>pnote_objs := pnote_objs h @ [shift off (pnote_objs h ! r)]\<rparr>)"
  by (simp add: add_offset_def get_pnote_def shift_def)

lemma comprehension_closed:
  assumes "\<forall>r\<in>set rs. r < length (pnote_objs h)"
  shows "generate_notes_comprehension rs off h =
           Some ([length (pnote_objs h) ..< length (pnote_objs h) + length rs],
                 h\<lparr>pnote_objs := pnote_objs h @ map (\<lambda>r. shift off (pnote_objs h ! r)) rs\<rparr>)"
  using assms
proof (induction rs arbitrary: h)
  case Nil
  then show ?case by simp
next
  case (Cons r rs)
  let ?n = "length (pnote_objs h)"
  let ?h2 = "h\<lparr>pnote_objs := pnote_objs h @ [shift off (pnote_objs h ! r)]\<rparr>"
  from Cons.prems have r: "r < ?n" and rs: "\<forall>q\<in>set rs. q < ?n" by simp_all
  have valid2: "\<forall>q\<in>set rs. q < length (pnote_objs ?h2)" using rs by auto
  have same: "map (\<lambda>q. shift off (pnote_objs ?h2 ! q)) rs = map (\<lambda>q. shift off (pnote_objs h ! q)) rs"
    using rs by (simp add: nth_append)
  have "generate_notes_comprehension rs off ?h2 =
      Some ([Suc ?n ..< Suc ?n + length rs],
            h\<lparr>pnote_objs := pnote_objs h @ shift off (pnote_objs h ! r) # map (\<lambda>q. shift off (pnote_objs h ! q)) rs\<rparr>)"
    using Cons.IH[OF valid2] same by simp
  then show ?case
    using clone_valid[OF r] add_offset_fresh_clone[of h off r] by (simp add: upt_rec)
qed

lemma Measure_generate_notes_closed:
  assumes "get_measure h self = Some m"
    and "\<forall>r\<in>set (notes_m m). r < length (pnote_objs h)"
  shows "Measure_generate_notes self off h =
           Some ([length (pnote_objs h) ..< length (pnote_objs h) + length (notes_m m)],
                 h\<lparr>pnote_objs := pnote_objs h @ map (\<lambda>r. shift off (pnote_objs h ! r)) (notes_m m)\<rparr>)"
  using assms by (simp add: Measure_generate_notes_def comprehension_closed)

lemma add_note_closed:
  assumes "get_measure h self = Some m"
  shows "add_note self n position dur vel h =
           Some (self,
                 h\<lparr>pnote_objs := pnote_objs h @ [stored_note (tempo m) (n, position, dur, vel)],
                   measure_objs := (measure_objs h)
                      [self := m\<lparr>notes_m := notes_m m @ [length (pnote_objs h)]\<rparr>]\<rparr>)"
  using assms by (simp add: add_note_def PositionedNote_init_def stored_note_def)

lemma add_notes_closed:
  assumes "get_measure h self = Some m"
  shows "add_notes self as h =
           Some (self,
                 h\<lparr>pnote_objs := pnote_objs h @ map (stored_note (tempo m)) as,
                   measure_objs := (measure_objs h)
                     [self := m\<lparr>notes_m := notes_m m @
                        [length (pnote_objs h) ..< length (pnote_objs h) + length as]\<rparr>]\<rparr>)"
  using assms
proof (induction as arbitrary: h m)
  case Nil
  from get_measure_SomeD[OF Nil] have "(measure_objs h)[self := m] = measure_objs h"
    by (metis list_update_id)
  then show ?case by simp
next
  case (Cons a as)
  obtain n position dur vel where a: "a = (n, position, dur, vel)"
    by (cases a) auto
  let ?m1 = "m\<lparr>notes_m := notes_m m @ [length (pnote_objs h)]\<rparr>"
  let ?h1 = "h\<lparr>pnote_objs := pnote_objs h @ [stored_note (tempo m) a],
               measure_objs := (measure_objs h)[self := ?m1]\<rparr>"
  have step: "add_note self n position dur vel h = Some (self, ?h1)"
    using add_note_closed[OF Cons.prems] by (simp add: a)
  have m1: "get_measure ?h1 self = Some ?m1"
    using get_measure_SomeD[OF Cons.prems] by (simp add: get_measure_def)
  show ?case
    using Cons.IH[OF m1] step by (simp add: a upt_rec)
qed

lemma calls_extend:
  assumes "get_measure h self = Some m"
    and "\<forall>r\<in>set (notes_m m). r < length (pnote_objs h)"
  shows "\<exists>new. generate_notes_calls self offs h = Some (h\<lparr>pnote_objs := pnote_objs h @ new\<rparr>)"
  using assms
proof (induction offs arbitrary: h)
  case Nil
  have "h = h\<lparr>pnote_objs := pnote_objs h @ []\<rparr>" by simp
  then show ?case by (metis generate_notes_calls.simps(1))
next
  case (Cons off offs)
  let ?new1 = "map (\<lambda>r. shift off (pnote_objs h ! r)) (notes_m m)"
  let ?h1 = "h\<lparr>pnote_objs := pnote_objs h @ ?new1\<rparr>"
  have m1: "get_measure ?h1 self = Some m"
    using Cons.prems(1) by (simp add: get_measure_pnote_objs_update)
  have valid1: "\<forall>r\<in>set (notes_m m). r < length (pnote_objs ?h1)"
    using Cons.prems(2) by auto
  from Cons.IH[OF m1 valid1] obtain new2 where
    "generate_notes_calls self offs ?h1 = Some (?h1\<lparr>pnote_objs := pnote_objs ?h1 @ new2\<rparr>)"
    by blast
  then have "generate_notes_calls self (off # offs) h
               = Some (h\<lparr>pnote_objs := pnote_objs h @ (?new1 @ new2)\<rparr>)"
    using Measure_generate_notes_closed[OF Cons.prems, of off] by simp
  then show ?case by blast
qed

lemma loop_concat:
  "Track_generate_notes_loop ms out off h =
     map_option (\<lambda>(ress, h'). (out @ concat ress, h')) (per_measure_results ms off h)"
  by (induction ms arbitrary: out off h) (auto split: option.splits)

lemma same_measure_twice:
  assumes "get_measure h M = Some m"
    and "\<forall>r\<in>set (notes_m m). r < length (pnote_objs h)"
    and "total_time M h = Some T"
  shows "Track_generate_notes_loop [M, M] [] (Duration 0) h =
           Some ([length (pnote_objs h) ..< length (pnote_objs h) + length (notes_m m)] @
                 [length (pnote_objs h) + length (notes_m m) ..<
                    length (pnote_objs h) + length (notes_m m) + length (notes_m m)],
                 h\<lparr>pnote_objs := pnote_objs h @
                     map (\<lambda>r. shift (Duration 0) (pnote_objs h ! r)) (notes_m m) @
                     map (\<lambda>r. shift (Duration_add (Duration 0) T) (pnote_objs h ! r)) (notes_m m)\<rparr>)"
proof -
  let ?new1 = "map (\<lambda>r. shift (Duration 0) (pnote_objs h ! r)) (notes_m m)"
  let ?h1 = "h\<lparr>pnote_objs := pnote_objs h @ ?new1\<rparr>"
  have first: "Measure_generate_notes M (Duration 0) h =
      Some ([length (pnote_objs h) ..< length (pnote_objs h) + length (notes_m m)], ?h1)"
    using Measure_generate_notes_closed[OF assms(1,2)] by simp
  have m1: "get_measure ?h1 M = Some m"
    using assms(1) by (simp add: get_measure_pnote_objs_update)
  have valid1: "\<forall>r\<in>set (notes_m m). r < length (pnote_objs ?h1)"
    using assms(2) by auto
  have t1: "total_time M ?h1 = Some T"
    using assms(3) by (simp add: total_time_pnote_objs_update)
  let ?off2 = "Duration_add (Duration 0) T"
  let ?new2 = "map (\<lambda>r. shift ?off2 (pnote_objs ?h1 ! r)) (notes_m m)"
  let ?h2 = "?h1\<lparr>pnote_objs := pnote_objs ?h1 @ ?new2\<rparr>"
  have second: "Measure_generate_notes M ?off2 ?h1 =
      Some ([length (pnote_objs ?h1) ..< length (pnote_objs ?h1) + length (notes_m m)], ?h2)"
    using Measure_generate_notes_closed[OF m1 valid1] by simp
  have t2: "total_time M ?h2 = Some T"
    using t1 by (simp add: total_time_pnote_objs_update)
  have new2: "?new2 = map (\<lambda>r. shift ?off2 (pnote_objs h ! r)) (notes_m m)"
    using assms(2) by (simp add: nth_append)
  have "Track_generate_notes_loop [M, M] [] (Duration 0) h =
          Some ([length (pnote_objs h) ..< length (pnote_objs h) + length (notes_m m)] @
                [length (pnote_objs ?h1) ..< length (pnote_objs ?h1) + length (notes_m m)], ?h2)"
    using first t1 second t2 by simp
  then show ?thesis
    unfolding new2 by simp
qed

lemma upt_append_nested:
  "[a + b ..< a + (b + k)] @ [a + (b + k) ..< a + (b + (k + l))] = [a + b ..< a + (b + (k + l :: nat))]"
  using upt_add_eq_append[of "a + b" "a + (b + k)" l] by (simp add: add.assoc)

lemma loop_closed:
  assumes "\<forall>M\<in>set Ms. measure_ok h M"
  shows "Track_generate_notes_loop Ms acc off (h\<lparr>pnote_objs := pnote_objs h @ extra\<rparr>) =
           Some (acc @ [length (pnote_objs h) + length extra ..<
                          length (pnote_objs h) + length extra + length (track_events h Ms off)],
                 h\<lparr>pnote_objs := pnote_objs h @ extra @ track_events h Ms off\<rparr>)"
  using assms
proof (induction Ms arbitrary: acc off extra)
  case Nil
  then show ?case by simp
next
  case (Cons M Ms)
  let ?n = "length (pnote_objs h) + length extra"
  let ?hx = "h\<lparr>pnote_objs := pnote_objs h @ extra\<rparr>"
  from Cons.prems obtain m where m: "get_measure h M = Some m"
    and valid: "\<forall>r\<in>set (notes_m m). r < length (pnote_objs h)"
    by (auto simp add: measure_ok_def split: option.splits)
  have mx: "get_measure ?hx M = Some m"
    using m by (simp add: get_measure_pnote_objs_update)
  have validx: "\<forall>r\<in>set (notes_m m). r < length (pnote_objs ?hx)"
    using valid by auto
  have me: "map (\<lambda>r. shift off (pnote_objs ?hx ! r)) (notes_m m) = measure_events h off M"
    using valid get_measure_SomeD[OF m] by (simp add: measure_events_def nth_append)
  let ?h1 = "h\<lparr>pnote_objs := pnote_objs h @ (extra @ measure_events h off M)\<rparr>"
  have k: "length (measure_events h off M) = length (notes_m m)"
    using get_measure_SomeD[OF m] by (simp add: measure_events_def)
  have first: "Measure_generate_notes M off ?hx = Some ([?n ..< ?n + length (notes_m m)], ?h1)"
    using Measure_generate_notes_closed[OF mx validx, of off] unfolding me by simp
  obtain T where T: "total_time M h = Some T"
    using m by (simp add: total_time_def)
  have T1: "total_time M ?h1 = Some T"
    using T by (simp add: total_time_pnote_objs_update)
  have ok: "\<forall>M\<in>set Ms. measure_ok h M"
    using Cons.prems by simp
  note IH = Cons.IH[OF ok, of "acc @ [?n ..< ?n + length (notes_m m)]" "Duration_add off T"
      "extra @ measure_events h off M"]
  show ?case
    using first T1 IH T by (simp add: k upt_append_nested add.assoc)
qed

lemma track_closed:
  assumes "get_track_obj h self = Some t"
    and "\<forall>M\<in>set (measures_tr t). measure_ok h M"
  shows "Track_generate_notes self h =
           Some ([length (pnote_objs h) ..<
                    length (pnote_objs h) + length (track_events h (measures_tr t) (Duration 0))],
                 h\<lparr>pnote_objs := pnote_objs h @ track_events h (measures_tr t) (Duration 0)\<rparr>)"
  using loop_closed[OF assms(2), of "[]" "Duration 0" "[]"] assms(1)
  by (simp add: Track_generate_notes_def)

lemma events_read_back:
  "map (get_pnote (h\<lparr>pnote_objs := ps @ es\<rparr>)) [length ps ..< length ps + length es] = map Some es"
  by (rule nth_equalityI) (simp_all add: get_pnote_def nth_append)


section \<open>Track.generate_notes\<close>

text \<open>
  C1. \<^verbatim>\<open>Track.generate_notes()\<close> visits the measures in stored order with a running offset
  that starts at \<^verbatim>\<open>Duration(0)\<close>: each measure contributes the result of its
  \<^verbatim>\<open>generate_notes(running_offset)\<close>, after which the running offset grows by that measure's
  \<^verbatim>\<open>total_time()\<close>, and the output is the concatenation of the per-measure results in that
  order. On a store as Python builds it the call returns, and the events it returns are,
  measure after measure, the stored notes of the measure with the running offset added.
\<close>

theorem Track_generate_notes_concat:
  "Track_generate_notes self h =
     (case get_track_obj h self of
        None \<Rightarrow> None
      | Some t \<Rightarrow>
          map_option (\<lambda>(ress, h'). (concat ress, h'))
            (per_measure_results (measures_tr t) (Duration 0) h))
   \<and> (track_ok h self \<longrightarrow>
        (\<exists>out h' t. get_track_obj h self = Some t
           \<and> Track_generate_notes self h = Some (out, h')
           \<and> map (get_pnote h') out = map Some (track_events h (measures_tr t) (Duration 0))))"
proof -
  have eq: "Track_generate_notes self h =
     (case get_track_obj h self of
        None \<Rightarrow> None
      | Some t \<Rightarrow>
          map_option (\<lambda>(ress, h'). (concat ress, h'))
            (per_measure_results (measures_tr t) (Duration 0) h))"
    by (simp add: Track_generate_notes_def loop_concat split: option.splits)
  have "\<exists>out h' t. get_track_obj h self = Some t
           \<and> Track_generate_notes self h = Some (out, h')
           \<and> map (get_pnote h') out = map Some (track_events h (measures_tr t) (Duration 0))"
    if "track_ok h self"
  proof -
    from that obtain t where t: "get_track_obj h self = Some t"
      and ok: "\<forall>M\<in>set (measures_tr t). measure_ok h M"
      by (auto simp add: track_ok_def split: option.splits)
    let ?es = "track_events h (measures_tr t) (Duration 0)"
    let ?out = "[length (pnote_objs h) ..< length (pnote_objs h) + length ?es]"
    let ?h' = "h\<lparr>pnote_objs := pnote_objs h @ ?es\<rparr>"
    have run: "Track_generate_notes self h = Some (?out, ?h')"
      by (rule track_closed[OF t ok])
    have "map (get_pnote ?h') ?out = map Some ?es"
      by (rule events_read_back)
    with t run show ?thesis by blast
  qed
  with eq show ?thesis by blast
qed

theorem Track_generate_notes_concat_witness:
  "track_ok theme2_heap 0
   \<and> Track_generate_notes 0 theme2_heap =
       map_option (\<lambda>(ress, h'). (concat ress, h'))
         (per_measure_results [0, 0] (Duration 0) theme2_heap)
   \<and> (\<exists>out h'. Track_generate_notes 0 theme2_heap = Some (out, h')
         \<and> map (get_pnote h') out =
             [Some \<lparr>pnote = Note ''E'' 3, offset = Duration 0, duration = Duration (1/2), velocity = 1\<rparr>,
              Some \<lparr>pnote = Note ''F'' 3, offset = Duration (1/2), duration = Duration (1/2), velocity = 1\<rparr>,
              Some \<lparr>pnote = Note ''G'' 3, offset = Duration 1, duration = Duration 1, velocity = 1\<rparr>,
              Some \<lparr>pnote = Note ''E'' 3, offset = Duration 2, duration = Duration (1/2), velocity = 1\<rparr>,
              Some \<lparr>pnote = Note ''F'' 3, offset = Duration (5/2), duration = Duration (1/2), velocity = 1\<rparr>,
              Some \<lparr>pnote = Note ''G'' 3, offset = Duration 3, duration = Duration 1, velocity = 1\<rparr>])"
proof -
  have ok: "track_ok theme2_heap 0"
    by (simp add: track_ok_def measure_ok_def get_track_obj_def get_measure_def theme2_heap_def)
  have t: "get_track_obj theme2_heap 0 = Some \<lparr>measures_tr = [0, 0]\<rparr>"
    by (simp add: get_track_obj_def theme2_heap_def)
  have events: "map Some (track_events theme2_heap [0, 0] (Duration 0)) =
             [Some \<lparr>pnote = Note ''E'' 3, offset = Duration 0, duration = Duration (1/2), velocity = 1\<rparr>,
              Some \<lparr>pnote = Note ''F'' 3, offset = Duration (1/2), duration = Duration (1/2), velocity = 1\<rparr>,
              Some \<lparr>pnote = Note ''G'' 3, offset = Duration 1, duration = Duration 1, velocity = 1\<rparr>,
              Some \<lparr>pnote = Note ''E'' 3, offset = Duration 2, duration = Duration (1/2), velocity = 1\<rparr>,
              Some \<lparr>pnote = Note ''F'' 3, offset = Duration (5/2), duration = Duration (1/2), velocity = 1\<rparr>,
              Some \<lparr>pnote = Note ''G'' 3, offset = Duration 3, duration = Duration 1, velocity = 1\<rparr>]"
    by (simp add: measure_events_def shift_def total_time_def get_measure_def
        get_num_quarter_notes_def quarter_note_def theme2_heap_def)
  note inst = Track_generate_notes_concat [of 0 theme2_heap]
  from inst have eq: "Track_generate_notes 0 theme2_heap =
       map_option (\<lambda>(ress, h'). (concat ress, h'))
         (per_measure_results [0, 0] (Duration 0) theme2_heap)"
    unfolding t by simp
  from inst ok obtain out h' t' where r:
    "get_track_obj theme2_heap 0 = Some t'"
    "Track_generate_notes 0 theme2_heap = Some (out, h')"
    "map (get_pnote h') out = map Some (track_events theme2_heap (measures_tr t') (Duration 0))"
    by blast
  from r(1) t have "t' = \<lparr>measures_tr = [0, 0]\<rparr>" by simp
  then have t': "measures_tr t' = [0, 0]" by simp
  have ev: "Track_generate_notes 0 theme2_heap = Some (out, h')
         \<and> map (get_pnote h') out =
             [Some \<lparr>pnote = Note ''E'' 3, offset = Duration 0, duration = Duration (1/2), velocity = 1\<rparr>,
              Some \<lparr>pnote = Note ''F'' 3, offset = Duration (1/2), duration = Duration (1/2), velocity = 1\<rparr>,
              Some \<lparr>pnote = Note ''G'' 3, offset = Duration 1, duration = Duration 1, velocity = 1\<rparr>,
              Some \<lparr>pnote = Note ''E'' 3, offset = Duration 2, duration = Duration (1/2), velocity = 1\<rparr>,
              Some \<lparr>pnote = Note ''F'' 3, offset = Duration (5/2), duration = Duration (1/2), velocity = 1\<rparr>,
              Some \<lparr>pnote = Note ''G'' 3, offset = Duration 3, duration = Duration 1, velocity = 1\<rparr>]"
    using r(2) r(3)[unfolded t' events] by (rule conjI)
  then have "\<exists>out h'. Track_generate_notes 0 theme2_heap = Some (out, h')
         \<and> map (get_pnote h') out =
             [Some \<lparr>pnote = Note ''E'' 3, offset = Duration 0, duration = Duration (1/2), velocity = 1\<rparr>,
              Some \<lparr>pnote = Note ''F'' 3, offset = Duration (1/2), duration = Duration (1/2), velocity = 1\<rparr>,
              Some \<lparr>pnote = Note ''G'' 3, offset = Duration 1, duration = Duration 1, velocity = 1\<rparr>,
              Some \<lparr>pnote = Note ''E'' 3, offset = Duration 2, duration = Duration (1/2), velocity = 1\<rparr>,
              Some \<lparr>pnote = Note ''F'' 3, offset = Duration (5/2), duration = Duration (1/2), velocity = 1\<rparr>,
              Some \<lparr>pnote = Note ''G'' 3, offset = Duration 3, duration = Duration 1, velocity = 1\<rparr>]"
    by (intro exI)
  with ok eq show ?thesis by (intro conjI)
qed


section \<open>Measure.generate_notes leaves the stored notes alone\<close>

text \<open>
  C2. Calling \<^verbatim>\<open>Measure.generate_notes\<close> any number of times, with any offsets, leaves the
  Measure and every PositionedNote that existed before unchanged, in particular the stored
  notes and their offsets. A later call with an offset \<open>off\<close> returns new objects, none of
  them a stored note, whose offsets are the stored offsets plus \<open>off\<close>, whatever calls came
  before: there is no drift.
\<close>

theorem generate_notes_keeps_stored_notes:
  assumes "get_measure h self = Some m"
    and "\<forall>r\<in>set (notes_m m). r < length (pnote_objs h)"
  shows "\<exists>h1. generate_notes_calls self offs h = Some h1
           \<and> get_measure h1 self = Some m
           \<and> (\<forall>q<length (pnote_objs h). get_pnote h1 q = get_pnote h q)
           \<and> (\<exists>out h2. Measure_generate_notes self off h1 = Some (out, h2)
                 \<and> set out \<inter> set (notes_m m) = {}
                 \<and> (\<forall>q<length (pnote_objs h). get_pnote h2 q = get_pnote h q)
                 \<and> map (\<lambda>e. map_option offset (get_pnote h2 e)) out =
                     map (\<lambda>r. Some (Duration_add (offset (pnote_objs h ! r)) off)) (notes_m m))"
proof -
  from calls_extend[OF assms, of offs] obtain new where
    calls: "generate_notes_calls self offs h = Some (h\<lparr>pnote_objs := pnote_objs h @ new\<rparr>)"
    by blast
  let ?h1 = "h\<lparr>pnote_objs := pnote_objs h @ new\<rparr>"
  have m1: "get_measure ?h1 self = Some m"
    using assms(1) by (simp add: get_measure_pnote_objs_update)
  have valid1: "\<forall>r\<in>set (notes_m m). r < length (pnote_objs ?h1)"
    using assms(2) by auto
  have kept: "\<forall>q<length (pnote_objs h). get_pnote ?h1 q = get_pnote h q"
    by (simp add: get_pnote_def nth_append)
  let ?out = "[length (pnote_objs ?h1) ..< length (pnote_objs ?h1) + length (notes_m m)]"
  let ?h2 = "?h1\<lparr>pnote_objs := pnote_objs ?h1 @
               map (\<lambda>r. shift off (pnote_objs ?h1 ! r)) (notes_m m)\<rparr>"
  have gen: "Measure_generate_notes self off ?h1 = Some (?out, ?h2)"
    using Measure_generate_notes_closed[OF m1 valid1, of off] by simp
  have fresh: "set ?out \<inter> set (notes_m m) = {}"
    using assms(2) by fastforce
  have kept2: "\<forall>q<length (pnote_objs h). get_pnote ?h2 q = get_pnote h q"
    by (simp add: get_pnote_def nth_append)
  have "map (\<lambda>e. map_option offset (get_pnote ?h2 e)) ?out =
          map (\<lambda>r. Some (Duration_add (offset (pnote_objs h ! r)) off)) (notes_m m)"
    using assms(2)
    by (intro nth_equalityI) (simp_all add: get_pnote_def nth_append shift_def)
  with calls m1 kept gen fresh kept2 show ?thesis by blast
qed

theorem generate_notes_keeps_stored_notes_witness:
  "get_measure theme2_heap 0 =
     Some \<lparr>tempo = Tempo 120, signature = Signature 4 4, notes_m = [0, 1, 2]\<rparr>
   \<and> length (pnote_objs theme2_heap) = 3
   \<and> (\<exists>h1. generate_notes_calls 0 [Duration 0, Duration 2] theme2_heap = Some h1
         \<and> get_measure h1 0 =
             Some \<lparr>tempo = Tempo 120, signature = Signature 4 4, notes_m = [0, 1, 2]\<rparr>
         \<and> (\<forall>q<3. get_pnote h1 q = get_pnote theme2_heap q)
         \<and> (\<exists>out h2. Measure_generate_notes 0 (Duration 0) h1 = Some (out, h2)
               \<and> set out \<inter> set [0, 1, 2] = {}
               \<and> (\<forall>q<3. get_pnote h2 q = get_pnote theme2_heap q)
               \<and> map (\<lambda>e. map_option offset (get_pnote h2 e)) out =
                   [Some (Duration 0), Some (Duration (1/2)), Some (Duration 1)]))"
proof -
  let ?m = "\<lparr>tempo = Tempo 120, signature = Signature 4 4, notes_m = [0, 1, 2]\<rparr>"
  have m: "get_measure theme2_heap 0 = Some ?m"
    by (simp add: get_measure_def theme2_heap_def)
  have valid: "\<forall>r\<in>set (notes_m ?m). r < length (pnote_objs theme2_heap)"
    by (simp add: theme2_heap_def)
  have sel: "notes_m ?m = [0, 1, 2]"
    by simp
  have len: "length (pnote_objs theme2_heap) = 3"
    by (simp add: theme2_heap_def)
  have vals: "map (\<lambda>r. Some (Duration_add (offset (pnote_objs theme2_heap ! r)) (Duration 0))) [0, 1, 2]
                = [Some (Duration 0), Some (Duration (1/2)), Some (Duration 1)]"
    by (simp add: theme2_heap_def)
  note inst = generate_notes_keeps_stored_notes
                [OF m valid, of "[Duration 0, Duration 2]" "Duration 0", unfolded sel len vals]
  show ?thesis
    using m len inst by blast
qed


section \<open>The same Measure twice in a Track\<close>

text \<open>
  C3, as amended. For a Measure \<open>M\<close> and a Track built from \<open>[M, M]\<close>, every stored note of
  \<open>M\<close> gives two output events that are distinct objects (no object occurs twice in the
  output): the first carries the stored offset plus \<^verbatim>\<open>Duration(0)\<close>, the second the stored
  offset plus \<^verbatim>\<open>Duration(0) + M.total_time()\<close>, the running offset of the second visit, with
  note, duration and velocity as stored. Nothing is said about the two offsets being
  different: that depends on the value of \<^verbatim>\<open>M.total_time()\<close> and on the Duration sum.
\<close>

theorem repeated_measure_independent_copies:
  assumes "get_measure h M = Some m"
    and "\<forall>r\<in>set (notes_m m). r < length (pnote_objs h)"
    and "Track_init [M, M] h = (t, h0)"
    and "i < length (notes_m m)"
  shows "\<exists>out h' T p e1 e2.
           Track_generate_notes t h0 = Some (out, h')
         \<and> total_time M h = Some T
         \<and> get_pnote h (notes_m m ! i) = Some p
         \<and> length out = 2 * length (notes_m m)
         \<and> distinct out
         \<and> out ! i \<noteq> out ! (length (notes_m m) + i)
         \<and> get_pnote h' (out ! i) = Some e1
         \<and> get_pnote h' (out ! (length (notes_m m) + i)) = Some e2
         \<and> e1 = p\<lparr>offset := Duration_add (offset p) (Duration 0)\<rparr>
         \<and> e2 = p\<lparr>offset := Duration_add (offset p) (Duration_add (Duration 0) T)\<rparr>"
proof -
  let ?rs = "notes_m m"
  let ?k = "length ?rs"
  let ?n = "length (pnote_objs h)"
  let ?T = "Duration_rmul (get_num_quarter_notes (signature m)) (quarter_note (tempo m))"
  let ?p = "pnote_objs h ! (?rs ! i)"
  from assms(3) have t: "t = length (track_objs h)"
    and h0: "h0 = h\<lparr>track_objs := track_objs h @ [\<lparr>measures_tr = [M, M]\<rparr>]\<rparr>"
    by (simp_all add: Track_init_def)
  have T: "total_time M h = Some ?T"
    using assms(1) by (simp add: total_time_def)
  have m0: "get_measure h0 M = Some m"
    using assms(1) by (simp add: h0 get_measure_track_objs_update)
  have valid0: "\<forall>r\<in>set ?rs. r < length (pnote_objs h0)"
    using assms(2) by (simp add: h0)
  have T0: "total_time M h0 = Some ?T"
    using T by (simp add: h0 total_time_track_objs_update)
  let ?out = "[?n ..< ?n + ?k] @ [?n + ?k ..< ?n + ?k + ?k]"
  let ?e1 = "shift (Duration 0) ?p"
  let ?e2 = "shift (Duration_add (Duration 0) ?T) ?p"
  let ?h' = "h0\<lparr>pnote_objs := pnote_objs h @
               map (\<lambda>r. shift (Duration 0) (pnote_objs h ! r)) ?rs @
               map (\<lambda>r. shift (Duration_add (Duration 0) ?T) (pnote_objs h ! r)) ?rs\<rparr>"
  have run: "Track_generate_notes t h0 = Some (?out, ?h')"
    using same_measure_twice[OF m0 valid0 T0]
    by (simp add: Track_generate_notes_def get_track_obj_def t h0)
  have p: "get_pnote h (?rs ! i) = Some ?p"
    using assms(2,4) by (simp add: get_pnote_def)
  have len: "length ?out = 2 * ?k" by simp
  have dist: "distinct ?out" by auto
  have o1: "?out ! i = ?n + i" using assms(4) by (simp add: nth_append)
  have o2: "?out ! (?k + i) = ?n + ?k + i" using assms(4) by (simp add: nth_append)
  have ne: "?out ! i \<noteq> ?out ! (?k + i)"
    using assms(4) unfolding o1 o2 by auto
  have g1: "get_pnote ?h' (?out ! i) = Some ?e1"
    unfolding o1 using assms(4) by (simp add: get_pnote_def nth_append)
  have g2: "get_pnote ?h' (?out ! (?k + i)) = Some ?e2"
    unfolding o2 using assms(4) by (simp add: get_pnote_def nth_append)
  have e1: "?e1 = ?p\<lparr>offset := Duration_add (offset ?p) (Duration 0)\<rparr>"
    by (simp add: shift_def)
  have e2: "?e2 = ?p\<lparr>offset := Duration_add (offset ?p) (Duration_add (Duration 0) ?T)\<rparr>"
    by (simp add: shift_def)
  show ?thesis
    using run T p len dist ne g1 g2 e1 e2 by blast
qed

theorem repeated_measure_independent_copies_witness:
  "get_measure theme2_heap 0 =
     Some \<lparr>tempo = Tempo 120, signature = Signature 4 4, notes_m = [0, 1, 2]\<rparr>
   \<and> length (pnote_objs theme2_heap) = 3
   \<and> Track_init [0, 0] theme2_heap =
       (1, theme2_heap\<lparr>track_objs := [\<lparr>measures_tr = [0, 0]\<rparr>, \<lparr>measures_tr = [0, 0]\<rparr>]\<rparr>)
   \<and> (2::nat) < 3
   \<and> (\<exists>out h' e1 e2.
         Track_generate_notes 1
           (theme2_heap\<lparr>track_objs := [\<lparr>measures_tr = [0, 0]\<rparr>, \<lparr>measures_tr = [0, 0]\<rparr>]\<rparr>)
           = Some (out, h')
       \<and> total_time 0 theme2_heap = Some (Duration 2)
       \<and> length out = 6
       \<and> distinct out
       \<and> out ! 2 \<noteq> out ! 5
       \<and> get_pnote h' (out ! 2) = Some e1
       \<and> get_pnote h' (out ! 5) = Some e2
       \<and> e1 = \<lparr>pnote = Note ''G'' 3, offset = Duration 1, duration = Duration 1, velocity = 1\<rparr>
       \<and> e2 = \<lparr>pnote = Note ''G'' 3, offset = Duration 3, duration = Duration 1, velocity = 1\<rparr>
       \<and> offset e1 \<noteq> offset e2)"
proof -
  let ?m = "\<lparr>tempo = Tempo 120, signature = Signature 4 4, notes_m = [0, 1, 2]\<rparr>"
  let ?h0 = "theme2_heap\<lparr>track_objs := [\<lparr>measures_tr = [0, 0]\<rparr>, \<lparr>measures_tr = [0, 0]\<rparr>]\<rparr>"
  have m: "get_measure theme2_heap 0 = Some ?m"
    by (simp add: get_measure_def theme2_heap_def)
  have valid: "\<forall>r\<in>set (notes_m ?m). r < length (pnote_objs theme2_heap)"
    by (simp add: theme2_heap_def)
  have init: "Track_init [0, 0] theme2_heap = (1, ?h0)"
    by (simp add: Track_init_def theme2_heap_def)
  have i: "2 < length (notes_m ?m)"
    by simp
  have T: "total_time 0 theme2_heap = Some (Duration 2)"
    by (simp add: total_time_def get_measure_def get_num_quarter_notes_def quarter_note_def
        theme2_heap_def)
  have p: "get_pnote theme2_heap (notes_m ?m ! 2) =
             Some \<lparr>pnote = Note ''G'' 3, offset = Duration 1, duration = Duration 1, velocity = 1\<rparr>"
    by (simp add: get_pnote_def theme2_heap_def)
  from repeated_measure_independent_copies [OF m valid init i]
  obtain out h' T' p' e1 e2 where r:
    "Track_generate_notes 1 ?h0 = Some (out, h')"
    "total_time 0 theme2_heap = Some T'"
    "get_pnote theme2_heap (notes_m ?m ! 2) = Some p'"
    "length out = 2 * length (notes_m ?m)"
    "distinct out"
    "out ! 2 \<noteq> out ! (length (notes_m ?m) + 2)"
    "get_pnote h' (out ! 2) = Some e1"
    "get_pnote h' (out ! (length (notes_m ?m) + 2)) = Some e2"
    "e1 = p'\<lparr>offset := Duration_add (offset p') (Duration 0)\<rparr>"
    "e2 = p'\<lparr>offset := Duration_add (offset p') (Duration_add (Duration 0) T')\<rparr>"
    by blast
  from r(2) T have T': "T' = Duration 2" by simp
  from r(3) p have p': "p' = \<lparr>pnote = Note ''G'' 3, offset = Duration 1, duration = Duration 1, velocity = 1\<rparr>"
    by simp
  have e1: "e1 = \<lparr>pnote = Note ''G'' 3, offset = Duration 1, duration = Duration 1, velocity = 1\<rparr>"
    using r(9) by (simp add: p')
  have e2: "e2 = \<lparr>pnote = Note ''G'' 3, offset = Duration 3, duration = Duration 1, velocity = 1\<rparr>"
    using r(10) by (simp add: p' T')
  have ne: "offset e1 \<noteq> offset e2"
    by (simp add: e1 e2)
  have len: "length out = 6" using r(4) by simp
  have five: "length (notes_m ?m) + 2 = 5" by simp
  have d: "out ! 2 \<noteq> out ! 5" using r(6) unfolding five .
  have g2: "get_pnote h' (out ! 5) = Some e2" using r(8) unfolding five .
  have events: "Track_generate_notes 1 ?h0 = Some (out, h')
       \<and> total_time 0 theme2_heap = Some (Duration 2)
       \<and> length out = 6
       \<and> distinct out
       \<and> out ! 2 \<noteq> out ! 5
       \<and> get_pnote h' (out ! 2) = Some e1
       \<and> get_pnote h' (out ! 5) = Some e2
       \<and> e1 = \<lparr>pnote = Note ''G'' 3, offset = Duration 1, duration = Duration 1, velocity = 1\<rparr>
       \<and> e2 = \<lparr>pnote = Note ''G'' 3, offset = Duration 3, duration = Duration 1, velocity = 1\<rparr>
       \<and> offset e1 \<noteq> offset e2"
    using r(1) T len r(5) d r(7) g2 e1 e2 ne by (intro conjI)
  have hyps: "get_measure theme2_heap 0 = Some ?m
       \<and> length (pnote_objs theme2_heap) = 3
       \<and> Track_init [0, 0] theme2_heap = (1, ?h0)
       \<and> (2::nat) < 3"
    using m init by (simp add: theme2_heap_def)
  from events have "\<exists>out h' e1 e2. Track_generate_notes 1 ?h0 = Some (out, h')
       \<and> total_time 0 theme2_heap = Some (Duration 2)
       \<and> length out = 6
       \<and> distinct out
       \<and> out ! 2 \<noteq> out ! 5
       \<and> get_pnote h' (out ! 2) = Some e1
       \<and> get_pnote h' (out ! 5) = Some e2
       \<and> e1 = \<lparr>pnote = Note ''G'' 3, offset = Duration 1, duration = Duration 1, velocity = 1\<rparr>
       \<and> e2 = \<lparr>pnote = Note ''G'' 3, offset = Duration 3, duration = Duration 1, velocity = 1\<rparr>
       \<and> offset e1 \<noteq> offset e2"
    by (intro exI)
  with hyps show ?thesis
    by (elim conjE, intro conjI) assumption+
qed

text \<open>
  C3, as stated, fails on a Measure whose \<^verbatim>\<open>total_time()\<close> is zero. The Measure
  \<^verbatim>\<open>Measure(Tempo(120), Signature(0, 4)).add_note(Note('C', 3), 0, 1)\<close> holds one note; the
  Track built from that Measure twice produces two events, objects 1 and 2, and both carry
  the offset \<^verbatim>\<open>Duration(0)\<close>.
\<close>

theorem repeated_measure_same_offset_counterexample:
  "get_measure zero_length_heap 0 =
     Some \<lparr>tempo = Tempo 120, signature = Signature 0 4, notes_m = [0]\<rparr>
   \<and> Track_generate_notes 0 zero_length_heap = Some ([1, 2], zero_length_heap_after)
   \<and> map_option offset (get_pnote zero_length_heap_after 1) = Some (Duration 0)
   \<and> map_option offset (get_pnote zero_length_heap_after 2) = Some (Duration 0)"
  by (simp add: eval_defs zero_length_heap_def zero_length_heap_after_def)


section \<open>Score lookup\<close>

text \<open>
  C4. \<^verbatim>\<open>Score.get_track(name)\<close> on a name that the Score does not hold hands the caller an
  explicit failure value, the \<^verbatim>\<open>IndexError\<close> instance with the message
  \<^verbatim>\<open>'<name> not found in tracks'\<close>, and no Track at all (no default, no empty Track); on a
  name that the Score holds it returns the stored Track.
\<close>

theorem get_track_lookup:
  "(name \<notin> dom (tracks s) \<longrightarrow>
      get_track s name = Inl (IndexError (name @ '' not found in tracks''))
      \<and> (\<forall>t. get_track s name \<noteq> Inr t))
   \<and> (\<forall>t. tracks s name = Some t \<longrightarrow> get_track s name = Inr t)"
  by (auto simp add: get_track_def)

theorem get_track_lookup_witness:
  "''bass'' \<notin> dom (tracks melody_score)
   \<and> get_track melody_score ''bass'' = Inl (IndexError ''bass not found in tracks'')
   \<and> get_track melody_score ''bass'' \<noteq> Inr 0
   \<and> tracks melody_score ''melody'' = Some 0
   \<and> get_track melody_score ''melody'' = Inr 0
   \<and> get_track Score_init ''missing'' = Inl (IndexError ''missing not found in tracks'')"
proof -
  have absent: "''bass'' \<notin> dom (tracks melody_score)"
    by (simp add: melody_score_def add_track_def Score_init_def)
  have present: "tracks melody_score ''melody'' = Some 0"
    by (simp add: melody_score_def add_track_def Score_init_def)
  have empty: "''missing'' \<notin> dom (tracks Score_init)"
    by (simp add: Score_init_def)
  show ?thesis
    using absent present empty
      get_track_lookup [of "''bass''" melody_score]
      get_track_lookup [of "''melody''" melody_score]
      get_track_lookup [of "''missing''" Score_init]
    by simp
qed

text \<open>
  C9. After \<^verbatim>\<open>add_track(name, t)\<close> a following \<^verbatim>\<open>get_track(name)\<close> returns \<open>t\<close>, whatever
  the Score held under that name before: the latest \<^verbatim>\<open>add_track\<close> for a name replaces any
  earlier entry.
\<close>

theorem add_track_get_track:
  "get_track (add_track s name t) name = Inr t"
  by (simp add: get_track_def add_track_def)

theorem add_track_get_track_witness:
  "get_track melody_score ''melody'' = Inr 0
   \<and> get_track (add_track melody_score ''melody'' 1) ''melody'' = Inr 1"
proof -
  have first: "get_track (add_track Score_init ''melody'' 0) ''melody'' = Inr 0"
    by (rule add_track_get_track)
  have second: "get_track (add_track melody_score ''melody'' 1) ''melody'' = Inr 1"
    by (rule add_track_get_track)
  from first second show ?thesis
    unfolding melody_score_def by (rule conjI)
qed


section \<open>PositionedNote.add_offset\<close>

text \<open>
  C8. \<^verbatim>\<open>p.add_offset(extra)\<close> returns the instance \<open>p\<close> itself and allocates nothing; in
  the store after the call \<open>p\<close> has the offset \<open>offset + extra\<close> and its note, duration and
  velocity are as before, and every other object is untouched.
\<close>

theorem add_offset_in_place:
  assumes "get_pnote h p = Some P"
  shows "\<exists>h' P'. add_offset p extra h = Some (p, h')
           \<and> get_pnote h' p = Some P'
           \<and> offset P' = Duration_add (offset P) extra
           \<and> pnote P' = pnote P \<and> duration P' = duration P \<and> velocity P' = velocity P
           \<and> length (pnote_objs h') = length (pnote_objs h)
           \<and> (\<forall>q. q \<noteq> p \<longrightarrow> get_pnote h' q = get_pnote h q)
           \<and> measure_objs h' = measure_objs h \<and> track_objs h' = track_objs h"
  using assms by (auto simp add: add_offset_def get_pnote_def split: if_splits)

theorem add_offset_in_place_witness:
  "get_pnote theme2_heap 1 =
     Some \<lparr>pnote = Note ''F'' 3, offset = Duration (1/2), duration = Duration (1/2), velocity = 1\<rparr>
   \<and> (\<exists>h' P'. add_offset 1 (Duration 2) theme2_heap = Some (1, h')
         \<and> get_pnote h' 1 = Some P'
         \<and> offset P' = Duration (5/2)
         \<and> pnote P' = Note ''F'' 3 \<and> duration P' = Duration (1/2) \<and> velocity P' = 1
         \<and> length (pnote_objs h') = 3
         \<and> get_pnote h' 0 = get_pnote theme2_heap 0)"
proof -
  let ?P = "\<lparr>pnote = Note ''F'' 3, offset = Duration (1/2), duration = Duration (1/2), velocity = 1\<rparr>"
  have P: "get_pnote theme2_heap 1 = Some ?P"
    by (simp add: get_pnote_def theme2_heap_def)
  have len: "length (pnote_objs theme2_heap) = 3"
    by (simp add: theme2_heap_def)
  from add_offset_in_place [OF P, of "Duration 2"] obtain h' P' where r:
    "add_offset 1 (Duration 2) theme2_heap = Some (1, h')"
    "get_pnote h' 1 = Some P'"
    "offset P' = Duration_add (offset ?P) (Duration 2)"
    "pnote P' = pnote ?P" "duration P' = duration ?P" "velocity P' = velocity ?P"
    "length (pnote_objs h') = length (pnote_objs theme2_heap)"
    "\<forall>q. q \<noteq> 1 \<longrightarrow> get_pnote h' q = get_pnote theme2_heap q"
    by blast
  have o: "offset P' = Duration (5/2)" using r(3) by simp
  have n: "pnote P' = Note ''F'' 3" using r(4) by simp
  have d: "duration P' = Duration (1/2)" using r(5) by simp
  have v: "velocity P' = 1" using r(6) by simp
  have l: "length (pnote_objs h') = 3" using r(7) len by simp
  have z: "get_pnote h' 0 = get_pnote theme2_heap 0" using r(8) by simp
  have "add_offset 1 (Duration 2) theme2_heap = Some (1, h')
         \<and> get_pnote h' 1 = Some P'
         \<and> offset P' = Duration (5/2)
         \<and> pnote P' = Note ''F'' 3 \<and> duration P' = Duration (1/2) \<and> velocity P' = 1
         \<and> length (pnote_objs h') = 3
         \<and> get_pnote h' 0 = get_pnote theme2_heap 0"
    using r(1,2) o n d v l z by (intro conjI)
  then have "\<exists>h' P'. add_offset 1 (Duration 2) theme2_heap = Some (1, h')
         \<and> get_pnote h' 1 = Some P'
         \<and> offset P' = Duration (5/2)
         \<and> pnote P' = Note ''F'' 3 \<and> duration P' = Duration (1/2) \<and> velocity P' = 1
         \<and> length (pnote_objs h') = 3
         \<and> get_pnote h' 0 = get_pnote theme2_heap 0"
    by (intro exI)
  with P show ?thesis by (rule conjI)
qed


section \<open>Measure.total_time and Measure.add_note\<close>

text \<open>
  C5. For every Measure, \<^verbatim>\<open>total_time()\<close> is \<^verbatim>\<open>signature.get_num_quarter_notes()\<close> times
  \<^verbatim>\<open>tempo.quarter_note()\<close>: the number of quarter-note beats of one measure under the
  signature, times the Duration of one quarter note at the tempo. Where the denominator and
  the tempo are not zero this is \<open>numerator * 4 / denominator * (60 / bpm)\<close> seconds.
\<close>

theorem total_time_product:
  assumes "get_measure h self = Some m"
  shows "total_time self h =
           Some (Duration_rmul (get_num_quarter_notes (signature m)) (quarter_note (tempo m)))
       \<and> (denominator (signature m) \<noteq> 0 \<and> bpm (tempo m) \<noteq> 0 \<longrightarrow>
            map_option seconds (total_time self h) =
              Some (numerator (signature m) * 4 / denominator (signature m) * (60 / bpm (tempo m))))"
  using assms by (simp add: total_time_def get_num_quarter_notes_def quarter_note_def)

theorem total_time_product_witness:
  "get_measure theme2_heap 0 =
     Some \<lparr>tempo = Tempo 120, signature = Signature 4 4, notes_m = [0, 1, 2]\<rparr>
   \<and> get_num_quarter_notes (Signature 4 4) = 4
   \<and> quarter_note (Tempo 120) = Duration (1/2)
   \<and> total_time 0 theme2_heap = Some (Duration 2)
   \<and> denominator (Signature 4 4) \<noteq> 0 \<and> bpm (Tempo 120) \<noteq> 0
   \<and> map_option seconds (total_time 0 theme2_heap) = Some 2"
proof -
  let ?m = "\<lparr>tempo = Tempo 120, signature = Signature 4 4, notes_m = [0, 1, 2]\<rparr>"
  have m: "get_measure theme2_heap 0 = Some ?m"
    by (simp add: get_measure_def theme2_heap_def)
  have beats: "get_num_quarter_notes (Signature 4 4) = 4"
    by (simp add: get_num_quarter_notes_def)
  have quarter: "quarter_note (Tempo 120) = Duration (1/2)"
    by (simp add: quarter_note_def)
  have nonzero: "denominator (Signature 4 4) \<noteq> 0" "bpm (Tempo 120) \<noteq> 0"
    by simp_all
  note inst = total_time_product [OF m]
  have total: "total_time 0 theme2_heap = Some (Duration 2)"
    using inst by (simp add: beats quarter)
  have secs: "map_option seconds (total_time 0 theme2_heap) = Some 2"
    using inst nonzero by (simp add: beats quarter)
  from m beats quarter total nonzero secs show ?thesis by (intro conjI)
qed

text \<open>
  C7. For every Measure and all beat counts, \<^verbatim>\<open>add_note\<close> converts position and duration
  with \<^verbatim>\<open>Duration.from_num_beats\<close> under the measure's tempo, allocates exactly one new
  PositionedNote holding them, appends its reference to the measure's notes, changes nothing
  else, and returns the Measure itself. It succeeds for every position, also one beyond the
  measure's length: no bound is checked and no error is signalled.
\<close>

theorem add_note_appends:
  assumes "get_measure h self = Some m"
  shows "add_note self n position dur vel h =
           Some (self,
                 h\<lparr>pnote_objs := pnote_objs h @
                      [\<lparr>pnote = n, offset = from_num_beats position (tempo m),
                        duration = from_num_beats dur (tempo m),
                        velocity = (case vel of None \<Rightarrow> 1 | Some v \<Rightarrow> v)\<rparr>],
                   measure_objs := (measure_objs h)
                      [self := m\<lparr>notes_m := notes_m m @ [length (pnote_objs h)]\<rparr>]\<rparr>)"
  using assms by (simp add: add_note_def PositionedNote_init_def)

theorem add_note_appends_witness:
  "get_measure theme2_heap 0 =
     Some \<lparr>tempo = Tempo 120, signature = Signature 4 4, notes_m = [0, 1, 2]\<rparr>
   \<and> total_time 0 theme2_heap = Some (from_num_beats 4 (Tempo 120))
   \<and> add_note 0 (Note ''A'' 3) 7 1 None theme2_heap =
       Some (0,
         theme2_heap
           \<lparr>pnote_objs := pnote_objs theme2_heap @
              [\<lparr>pnote = Note ''A'' 3, offset = Duration (7/2), duration = Duration (1/2),
                velocity = 1\<rparr>],
            measure_objs :=
              [\<lparr>tempo = Tempo 120, signature = Signature 4 4, notes_m = [0, 1, 2, 3]\<rparr>]\<rparr>)"
proof -
  let ?m = "\<lparr>tempo = Tempo 120, signature = Signature 4 4, notes_m = [0, 1, 2]\<rparr>"
  have m: "get_measure theme2_heap 0 = Some ?m"
    by (simp add: get_measure_def theme2_heap_def)
  have len: "total_time 0 theme2_heap = Some (from_num_beats 4 (Tempo 120))"
    by (simp add: total_time_def get_measure_def get_num_quarter_notes_def from_num_beats_def
        theme2_heap_def)
  have "add_note 0 (Note ''A'' 3) 7 1 None theme2_heap =
       Some (0,
         theme2_heap
           \<lparr>pnote_objs := pnote_objs theme2_heap @
              [\<lparr>pnote = Note ''A'' 3, offset = Duration (7/2), duration = Duration (1/2),
                velocity = 1\<rparr>],
            measure_objs :=
              [\<lparr>tempo = Tempo 120, signature = Signature 4 4, notes_m = [0, 1, 2, 3]\<rparr>]\<rparr>)"
    using add_note_appends [OF m, of "Note ''A'' 3" 7 1 None]
    by (simp add: from_num_beats_def quarter_note_def theme2_heap_def)
  with m len show ?thesis by (intro conjI)
qed


section \<open>The events of Measure.generate_notes\<close>

text \<open>
  C10. For every Measure and base offset, \<^verbatim>\<open>Measure.generate_notes(base_offset)\<close> returns
  as many events as the measure stores notes, and the \<open>i\<close>-th event has the note, duration
  and velocity of the \<open>i\<close>-th stored note and the stored note's offset plus the base offset.
\<close>

theorem Measure_generate_notes_events:
  assumes "get_measure h self = Some m"
    and "\<forall>r\<in>set (notes_m m). r < length (pnote_objs h)"
  shows "\<exists>out h'.
           Measure_generate_notes self base_offset h = Some (out, h')
         \<and> length out = length (notes_m m)
         \<and> (\<forall>i<length (notes_m m).
               get_pnote h' (out ! i) =
                 Some ((pnote_objs h ! (notes_m m ! i))
                        \<lparr>offset := Duration_add (offset (pnote_objs h ! (notes_m m ! i))) base_offset\<rparr>))"
  using Measure_generate_notes_closed[OF assms, of base_offset]
  by (simp add: get_pnote_def nth_append shift_def)

theorem Measure_generate_notes_events_witness:
  "get_measure theme2_heap 0 =
     Some \<lparr>tempo = Tempo 120, signature = Signature 4 4, notes_m = [0, 1, 2]\<rparr>
   \<and> length (pnote_objs theme2_heap) = 3
   \<and> (\<exists>out h'.
         Measure_generate_notes 0 (Duration 2) theme2_heap = Some (out, h')
       \<and> length out = 3
       \<and> get_pnote h' (out ! 0) =
           Some \<lparr>pnote = Note ''E'' 3, offset = Duration 2, duration = Duration (1/2), velocity = 1\<rparr>
       \<and> get_pnote h' (out ! 1) =
           Some \<lparr>pnote = Note ''F'' 3, offset = Duration (5/2), duration = Duration (1/2), velocity = 1\<rparr>
       \<and> get_pnote h' (out ! 2) =
           Some \<lparr>pnote = Note ''G'' 3, offset = Duration 3, duration = Duration 1, velocity = 1\<rparr>)"
proof -
  let ?m = "\<lparr>tempo = Tempo 120, signature = Signature 4 4, notes_m = [0, 1, 2]\<rparr>"
  have m: "get_measure theme2_heap 0 = Some ?m"
    by (simp add: get_measure_def theme2_heap_def)
  have valid: "\<forall>r\<in>set (notes_m ?m). r < length (pnote_objs theme2_heap)"
    by (simp add: theme2_heap_def)
  have v: "length (pnote_objs theme2_heap) = 3"
    by (simp add: theme2_heap_def)
  from Measure_generate_notes_events [OF m valid, of "Duration 2"] obtain out h' where r:
    "Measure_generate_notes 0 (Duration 2) theme2_heap = Some (out, h')"
    "length out = length (notes_m ?m)"
    "\<forall>i<length (notes_m ?m).
       get_pnote h' (out ! i) =
         Some ((pnote_objs theme2_heap ! (notes_m ?m ! i))
                \<lparr>offset := Duration_add (offset (pnote_objs theme2_heap ! (notes_m ?m ! i))) (Duration 2)\<rparr>)"
    by blast
  have l: "length out = 3" using r(2) by simp
  have e0: "get_pnote h' (out ! 0) =
      Some \<lparr>pnote = Note ''E'' 3, offset = Duration 2, duration = Duration (1/2), velocity = 1\<rparr>"
    using r(3)[rule_format, of 0] by (simp add: theme2_heap_def)
  have e1: "get_pnote h' (out ! 1) =
      Some \<lparr>pnote = Note ''F'' 3, offset = Duration (5/2), duration = Duration (1/2), velocity = 1\<rparr>"
    using r(3)[rule_format, of 1] by (simp add: theme2_heap_def)
  have e2: "get_pnote h' (out ! 2) =
      Some \<lparr>pnote = Note ''G'' 3, offset = Duration 3, duration = Duration 1, velocity = 1\<rparr>"
    using r(3)[rule_format, of 2] by (simp add: theme2_heap_def)
  have "Measure_generate_notes 0 (Duration 2) theme2_heap = Some (out, h')
       \<and> length out = 3
       \<and> get_pnote h' (out ! 0) =
           Some \<lparr>pnote = Note ''E'' 3, offset = Duration 2, duration = Duration (1/2), velocity = 1\<rparr>
       \<and> get_pnote h' (out ! 1) =
           Some \<lparr>pnote = Note ''F'' 3, offset = Duration (5/2), duration = Duration (1/2), velocity = 1\<rparr>
       \<and> get_pnote h' (out ! 2) =
           Some \<lparr>pnote = Note ''G'' 3, offset = Duration 3, duration = Duration 1, velocity = 1\<rparr>"
    using r(1) l e0 e1 e2 by (intro conjI)
  then have "\<exists>out h'.
         Measure_generate_notes 0 (Duration 2) theme2_heap = Some (out, h')
       \<and> length out = 3
       \<and> get_pnote h' (out ! 0) =
           Some \<lparr>pnote = Note ''E'' 3, offset = Duration 2, duration = Duration (1/2), velocity = 1\<rparr>
       \<and> get_pnote h' (out ! 1) =
           Some \<lparr>pnote = Note ''F'' 3, offset = Duration (5/2), duration = Duration (1/2), velocity = 1\<rparr>
       \<and> get_pnote h' (out ! 2) =
           Some \<lparr>pnote = Note ''G'' 3, offset = Duration 3, duration = Duration 1, velocity = 1\<rparr>"
    by (intro exI)
  with m v show ?thesis by (intro conjI)
qed

text \<open>
  C6. For a Measure whose notes were added by \<^verbatim>\<open>add_note\<close> calls in some order, whatever
  the beat positions passed, \<^verbatim>\<open>Measure.generate_notes(offset)\<close> returns the events of those
  calls in the same order: the order of insertion, not an order by position.
\<close>

theorem generate_notes_insertion_order:
  assumes "Measure_init t s h0 = (M, h1)"
  shows "\<exists>h2 out h3.
           add_notes M as h1 = Some (M, h2)
         \<and> Measure_generate_notes M off h2 = Some (out, h3)
         \<and> map (get_pnote h3) out =
             map (\<lambda>(n, position, dur, vel).
                    Some \<lparr>pnote = n, offset = Duration_add (from_num_beats position t) off,
                          duration = from_num_beats dur t,
                          velocity = (case vel of None \<Rightarrow> 1 | Some v \<Rightarrow> v)\<rparr>) as"
proof -
  let ?n = "length (pnote_objs h0)"
  let ?m = "\<lparr>tempo = t, signature = s, notes_m = []\<rparr>"
  let ?m2 = "\<lparr>tempo = t, signature = s, notes_m = [?n ..< ?n + length as]\<rparr>"
  from assms have M: "M = length (measure_objs h0)"
    and h1: "h1 = h0\<lparr>measure_objs := measure_objs h0 @ [?m]\<rparr>"
    by (simp_all add: Measure_init_def)
  have m: "get_measure h1 M = Some ?m"
    by (simp add: M h1 get_measure_def)
  let ?h2 = "h1\<lparr>pnote_objs := pnote_objs h1 @ map (stored_note t) as,
               measure_objs := (measure_objs h1)[M := ?m2]\<rparr>"
  have built: "add_notes M as h1 = Some (M, ?h2)"
    using add_notes_closed[OF m, of as] by (simp add: h1)
  have m2: "get_measure ?h2 M = Some ?m2"
    by (simp add: M h1 get_measure_def)
  have valid: "\<forall>r\<in>set (notes_m ?m2). r < length (pnote_objs ?h2)"
    by (simp add: h1)
  let ?h3 = "?h2\<lparr>pnote_objs := pnote_objs ?h2 @
                 map (\<lambda>r. shift off (pnote_objs ?h2 ! r)) (notes_m ?m2)\<rparr>"
  let ?out = "[length (pnote_objs ?h2) ..< length (pnote_objs ?h2) + length (notes_m ?m2)]"
  have gen: "Measure_generate_notes M off ?h2 = Some (?out, ?h3)"
    using Measure_generate_notes_closed[OF m2 valid, of off] by simp
  have copies: "map (\<lambda>r. shift off (pnote_objs ?h2 ! r)) (notes_m ?m2)
                  = map (shift off) (map (stored_note t) as)"
    using nth_upt_append[of "shift off" "pnote_objs h0" "map (stored_note t) as"]
    by (simp add: h1)
  have "map (get_pnote ?h3) ?out = map (\<lambda>a. Some (shift off (stored_note t a))) as"
    unfolding copies
    by (rule nth_equalityI) (simp_all add: get_pnote_def h1 nth_append)
  also have "\<dots> = map (\<lambda>(n, position, dur, vel).
                    Some \<lparr>pnote = n, offset = Duration_add (from_num_beats position t) off,
                          duration = from_num_beats dur t,
                          velocity = (case vel of None \<Rightarrow> 1 | Some v \<Rightarrow> v)\<rparr>) as"
    by (simp add: shift_def stored_note_def split_def)
  finally show ?thesis
    using built gen by blast
qed

theorem generate_notes_insertion_order_witness:
  "Measure_init (Tempo 120) (Signature 4 4) empty_heap =
     (0, empty_heap\<lparr>measure_objs :=
           [\<lparr>tempo = Tempo 120, signature = Signature 4 4, notes_m = []\<rparr>]\<rparr>)
   \<and> (\<exists>h2 out h3.
         add_notes 0 [(Note ''C'' 3, 3, 1, None), (Note ''D'' 3, 0, 1, None),
                      (Note ''E'' 3, 1, 1, Some (1/2))]
           (empty_heap\<lparr>measure_objs :=
              [\<lparr>tempo = Tempo 120, signature = Signature 4 4, notes_m = []\<rparr>]\<rparr>) = Some (0, h2)
       \<and> Measure_generate_notes 0 (Duration 2) h2 = Some (out, h3)
       \<and> map (get_pnote h3) out =
           [Some \<lparr>pnote = Note ''C'' 3, offset = Duration (7/2), duration = Duration (1/2),
                  velocity = 1\<rparr>,
            Some \<lparr>pnote = Note ''D'' 3, offset = Duration 2, duration = Duration (1/2),
                  velocity = 1\<rparr>,
            Some \<lparr>pnote = Note ''E'' 3, offset = Duration (5/2), duration = Duration (1/2),
                  velocity = 1/2\<rparr>])"
proof -
  let ?h1 = "empty_heap\<lparr>measure_objs :=
               [\<lparr>tempo = Tempo 120, signature = Signature 4 4, notes_m = []\<rparr>]\<rparr>"
  let ?as = "[(Note ''C'' 3, 3, 1, None), (Note ''D'' 3, 0, 1, None),
              (Note ''E'' 3, 1, 1, Some (1/2))]"
  have init: "Measure_init (Tempo 120) (Signature 4 4) empty_heap = (0, ?h1)"
    by (simp add: Measure_init_def empty_heap_def)
  have events: "map (\<lambda>(n, position, dur, vel).
                    Some \<lparr>pnote = n, offset = Duration_add (from_num_beats position (Tempo 120)) (Duration 2),
                          duration = from_num_beats dur (Tempo 120),
                          velocity = (case vel of None \<Rightarrow> 1 | Some v \<Rightarrow> v)\<rparr>) ?as
       = [Some \<lparr>pnote = Note ''C'' 3, offset = Duration (7/2), duration = Duration (1/2),
                  velocity = 1\<rparr>,
            Some \<lparr>pnote = Note ''D'' 3, offset = Duration 2, duration = Duration (1/2),
                  velocity = 1\<rparr>,
            Some \<lparr>pnote = Note ''E'' 3, offset = Duration (5/2), duration = Duration (1/2),
                  velocity = 1/2\<rparr>]"
    by (simp add: from_num_beats_def quarter_note_def)
  show ?thesis
    using init generate_notes_insertion_order [OF init, of ?as "Duration 2"]
    unfolding events by (rule conjI)
qed

end
